theory Spec2Isabelle
  imports Main "HOL-Library.Sublist"
begin

section \<open>Strings\<close>

text \<open>
  Python strings are modelled as \<open>string\<close>, a list of characters with code points
  below 256. On that range \<open>str.isspace\<close> holds for the code points 9 to 13, 28 to 32,
  133 and 160, and \<open>str.isdigit\<close> in the sense of the regular expression \<open>\d\<close> holds
  for the ASCII digits only.
\<close>

definition isspace :: "char \<Rightarrow> bool" where
  "isspace c = (of_char c \<in> {9, 10, 11, 12, 13, 28, 29, 30, 31, 32, 133, 160 :: nat})"

definition isdigit :: "char \<Rightarrow> bool" where
  "isdigit c = (48 \<le> (of_char c :: nat) \<and> (of_char c :: nat) \<le> 57)"

definition digit_value :: "char \<Rightarrow> nat" where
  "digit_value c = of_char c - 48"

definition strip :: "string \<Rightarrow> string" where
  "strip s = rev (dropWhile isspace (rev (dropWhile isspace s)))"

definition startswith :: "string \<Rightarrow> string \<Rightarrow> bool" where
  "startswith s p = (take (length p) s = p)"

section \<open>Data model\<close>

record date =
  year :: nat
  month :: nat
  day :: nat

record Person =
  name :: string
  nickname :: string
  birthday :: date

record MessageTemplate =
  template_text :: string

text \<open>
  The value \<open>json.load\<close> returns. A \<open>JObject\<close> is the Python dict in insertion order,
  so its keys are distinct; a \<open>JFloat\<close> carries the literal of the number, which the
  program never inspects.
\<close>

datatype json =
    JNull
  | JBool bool
  | JInt int
  | JFloat string
  | JString string
  | JArray "json list"
  | JObject "(string \<times> json) list"

section \<open>Errors\<close>

text \<open>
  The two places where the program raises the base class \<open>BirthdayBotError\<close> differ in
  their message only; the message is kept structured:
  \<^item> \<open>Missing_required_field entry field\<close> is
    \<^verbatim>\<open>f"Birthday entry {entry!r} is missing required field {exc.args[0]!r}."\<close>;
  \<^item> \<open>No_message_templates\<close> is \<^verbatim>\<open>"No message templates available."\<close>.
\<close>

datatype bot_message =
    Missing_required_field json string
  | No_message_templates

text \<open>
  The exceptions of the program and of the library calls it makes.
  \<open>Format_beyond_model\<close> is not an exception: it marks a template whose replacement
  field uses syntax of \<open>str.format\<close> that this development does not model (conversion,
  format specification, attribute or index access, nested fields). What it stands
  for is a rendered text or an exception of \<open>str.format\<close>, never a
  \<open>BirthdayBotError\<close>.
\<close>

datatype error =
    BirthdayBotError bot_message
  | MissingEnvironmentVariableError string
  | TelegramApiError int string
  | KeyError string
  | IndexError
  | ValueError
  | TypeError
  | AttributeError
  | OSError
  | UnicodeDecodeError
  | JSONDecodeError
  | RequestException
  | Format_beyond_model

abbreviation MalformedEntry :: "json \<Rightarrow> string \<Rightarrow> error" where
  "MalformedEntry entry field \<equiv> BirthdayBotError (Missing_required_field entry field)"

abbreviation NoTemplatesAvailable :: error where
  "NoTemplatesAvailable \<equiv> BirthdayBotError No_message_templates"


section \<open>Person.mention\<close>

definition mention :: "Person \<Rightarrow> string" where
  "mention p =
     (let nick = strip (nickname p)
      in if startswith nick ''@'' then nick else ''@'' @ nick)"

section \<open>MessageTemplate.render\<close>

text \<open>
  \<open>str.format\<close> with keyword arguments only. The text is scanned from the left:
  \<open>{{\<close> and \<open>}}\<close> are the escaped braces, a lone \<open>}\<close> and a \<open>{\<close> at the end are a
  \<open>ValueError\<close>, any other \<open>{\<close> opens a replacement field that runs to the next \<open>}\<close>.
  A field whose name is empty or a number is positional and fails with \<open>IndexError\<close>,
  since there are no positional arguments; a name that is not a number is looked up
  among the keywords and fails with \<open>KeyError\<close> when absent. The value is a string
  and is inserted as it is.
\<close>

type_synonym kwargs = "(string \<times> string) list"

definition special :: "char \<Rightarrow> bool" where
  "special c = (c \<in> {CHR ''{'', CHR ''!'', CHR '':'', CHR ''.'', CHR ''[''})"

text \<open>
  \<open>get_integer\<close> of the library reads a field name as a positional index. It goes
  through the characters from the left: a character that is no digit ends it with
  "not a number", and a digit that would take the value above \<open>PY_SSIZE_T_MAX\<close> (here
  that of a 64-bit build) raises \<open>ValueError\<close>.
\<close>

definition PY_SSIZE_T_MAX :: nat where
  "PY_SSIZE_T_MAX = 2 ^ 63 - 1"

fun get_integer :: "nat \<Rightarrow> string \<Rightarrow> error + nat option" where
  "get_integer accumulator [] = Inr (Some accumulator)"
| "get_integer accumulator (c # cs) =
     (if \<not> isdigit c then Inr None
      else if accumulator > (PY_SSIZE_T_MAX - digit_value c) div 10 then Inl ValueError
      else get_integer (accumulator * 10 + digit_value c) cs)"

definition get_field :: "kwargs \<Rightarrow> string \<Rightarrow> error + string" where
  "get_field kw fld =
     (if fld = [] then Inl IndexError
      else case get_integer 0 fld of
             Inl e \<Rightarrow> Inl e
           | Inr (Some index) \<Rightarrow> Inl IndexError
           | Inr None \<Rightarrow>
               (case map_of kw fld of None \<Rightarrow> Inl (KeyError fld) | Some v \<Rightarrow> Inr v))"

definition emit :: "string \<Rightarrow> error + string \<Rightarrow> error + string" where
  "emit v r = (case r of Inl e \<Rightarrow> Inl e | Inr s \<Rightarrow> Inr (v @ s))"

fun format_text :: "kwargs \<Rightarrow> string \<Rightarrow> error + string"
  and format_field :: "kwargs \<Rightarrow> string \<Rightarrow> string \<Rightarrow> error + string" where
  "format_text kw [] = Inr []"
| "format_text kw (c # cs) =
     (if c = CHR ''}'' then
        (case cs of
           [] \<Rightarrow> Inl ValueError
         | d # ds \<Rightarrow> if d = CHR ''}'' then emit [c] (format_text kw ds) else Inl ValueError)
      else if c = CHR ''{'' then
        (case cs of
           [] \<Rightarrow> Inl ValueError
         | d # ds \<Rightarrow> if d = CHR ''{'' then emit [c] (format_text kw ds)
                    else format_field kw [] cs)
      else emit [c] (format_text kw cs))"
| "format_field kw acc [] = Inl ValueError"
| "format_field kw acc (c # cs) =
     (if c = CHR ''}'' then
        (case get_field kw (rev acc) of
           Inl e \<Rightarrow> Inl e
         | Inr v \<Rightarrow> emit v (format_text kw cs))
      else if special c then Inl Format_beyond_model
      else format_field kw (c # acc) cs)"

definition render :: "MessageTemplate \<Rightarrow> Person \<Rightarrow> error + string" where
  "render t person =
     format_text [(''name'', name person), (''mention'', mention person)] (template_text t)"

section \<open>Parsing a date\<close>

text \<open>
  \<open>datetime.strptime(s, "%Y-%m-%d").date()\<close>. The library turns the format into the
  regular expression
  \<^verbatim>\<open>(?P<Y>\d\d\d\d)-(?P<m>1[0-2]|0[1-9]|[1-9])-(?P<d>3[0-1]|[1-2]\d|0[1-9]|[1-9]| [1-9])\<close>,
  matches it at the start of the string, rejects a string with characters left over,
  and then builds the date, which rejects the year 0 and a day the month does not have.
  Every rejection is a \<open>ValueError\<close>, here \<open>None\<close>. Where an earlier alternative of the
  month matches and no \<open>-\<close> follows, no later alternative can succeed either, so the
  first matching alternative decides.
\<close>

definition match_year :: "string \<Rightarrow> (nat \<times> string) option" where
  "match_year s =
     (case s of
        a # b # c # d # r \<Rightarrow>
          if isdigit a \<and> isdigit b \<and> isdigit c \<and> isdigit d
          then Some (1000 * digit_value a + 100 * digit_value b
                       + 10 * digit_value c + digit_value d, r)
          else None
      | _ \<Rightarrow> None)"

definition nonzero_digit :: "char \<Rightarrow> bool" where
  "nonzero_digit c = (isdigit c \<and> c \<noteq> CHR ''0'')"

definition match_month :: "string \<Rightarrow> (nat \<times> string) option" where
  "match_month s =
     (case s of
        [] \<Rightarrow> None
      | a # r \<Rightarrow>
          (case r of
             [] \<Rightarrow> if nonzero_digit a then Some (digit_value a, r) else None
           | b # r' \<Rightarrow>
               if a = CHR ''1'' \<and> b \<in> {CHR ''0'', CHR ''1'', CHR ''2''}
               then Some (10 + digit_value b, r')
               else if a = CHR ''0'' \<and> nonzero_digit b then Some (digit_value b, r')
               else if nonzero_digit a then Some (digit_value a, r)
               else None))"

definition match_day :: "string \<Rightarrow> (nat \<times> string) option" where
  "match_day s =
     (case s of
        [] \<Rightarrow> None
      | a # r \<Rightarrow>
          (case r of
             [] \<Rightarrow> if nonzero_digit a then Some (digit_value a, r) else None
           | b # r' \<Rightarrow>
               if a = CHR ''3'' \<and> b \<in> {CHR ''0'', CHR ''1''}
               then Some (30 + digit_value b, r')
               else if a \<in> {CHR ''1'', CHR ''2''} \<and> isdigit b
               then Some (10 * digit_value a + digit_value b, r')
               else if a = CHR ''0'' \<and> nonzero_digit b then Some (digit_value b, r')
               else if nonzero_digit a then Some (digit_value a, r)
               else if a = CHR '' '' \<and> nonzero_digit b then Some (digit_value b, r')
               else None))"

definition is_leap :: "nat \<Rightarrow> bool" where
  "is_leap y = (y mod 4 = 0 \<and> (y mod 100 \<noteq> 0 \<or> y mod 400 = 0))"

definition days_in_month :: "nat \<Rightarrow> nat \<Rightarrow> nat" where
  "days_in_month y m =
     (if m = 2 then (if is_leap y then 29 else 28)
      else if m \<in> {4, 6, 9, 11} then 30 else 31)"

definition strptime :: "string \<Rightarrow> date option" where
  "strptime s =
     (case match_year s of
        None \<Rightarrow> None
      | Some (y, r1) \<Rightarrow>
          (case r1 of
             [] \<Rightarrow> None
           | h1 # r2 \<Rightarrow>
               if h1 \<noteq> CHR ''-'' then None
               else
                 (case match_month r2 of
                    None \<Rightarrow> None
                  | Some (m, r3) \<Rightarrow>
                      (case r3 of
                         [] \<Rightarrow> None
                       | h2 # r4 \<Rightarrow>
                           if h2 \<noteq> CHR ''-'' then None
                           else
                             (case match_day r4 of
                                None \<Rightarrow> None
                              | Some (d, r5) \<Rightarrow>
                                  if r5 \<noteq> [] then None
                                  else if 1 \<le> y \<and> d \<le> days_in_month y m
                                  then Some \<lparr>year = y, month = m, day = d\<rparr>
                                  else None)))))"

section \<open>The world the program runs in\<close>

text \<open>
  What the program reads and changes outside itself: the files (a path holds a JSON
  document, bytes that are not UTF-8, text that is not JSON, or nothing), the process
  environment, the calendar date, the random generator (the k-th call of
  \<open>random.choice\<close> on a sequence of length n picks the index \<open>rand k mod n\<close>), and the
  Telegram server (its reply to the k-th request). \<open>draws\<close> counts the random draws
  made, \<open>posts\<close> lists the requests issued and \<open>lookups\<close> the environment variables
  read, each in order.
\<close>

datatype file_content = No_file | Undecodable | Not_json | Json json

record request =
  req_url :: string
  req_chat_id :: string
  req_text :: string
  req_parse_mode :: string
  req_timeout :: nat

datatype reply = Response int string | Request_failed

record world =
  files :: "string \<Rightarrow> file_content"
  environ :: "string \<Rightarrow> string option"
  clock :: date
  rand :: "nat \<Rightarrow> nat"
  draws :: nat
  server :: "nat \<Rightarrow> request \<Rightarrow> reply"
  posts :: "request list"
  lookups :: "string list"

section \<open>Loading the data files\<close>

definition read_json :: "world \<Rightarrow> string \<Rightarrow> error + json" where
  "read_json w path =
     (case files w path of
        No_file \<Rightarrow> Inl OSError
      | Undecodable \<Rightarrow> Inl UnicodeDecodeError
      | Not_json \<Rightarrow> Inl JSONDecodeError
      | Json doc \<Rightarrow> Inr doc)"

text \<open>\<open>for entry in entries\<close>: a list yields its items, a dict its keys, a string its
  characters; nothing else is iterable.\<close>

fun iterate :: "json \<Rightarrow> error + json list" where
  "iterate (JArray xs) = Inr xs"
| "iterate (JObject kvs) = Inr (map (\<lambda>kv. JString (fst kv)) kvs)"
| "iterate (JString s) = Inr (map (\<lambda>c. JString [c]) s)"
| "iterate _ = Inl TypeError"

text \<open>\<open>entry[key]\<close> with a string key: only a dict can be subscripted so.\<close>

definition getitem :: "json \<Rightarrow> string \<Rightarrow> error + json" where
  "getitem entry key =
     (case entry of
        JObject kvs \<Rightarrow>
          (case map_of kvs key of None \<Rightarrow> Inl (KeyError key) | Some v \<Rightarrow> Inr v)
      | _ \<Rightarrow> Inl TypeError)"

text \<open>\<open>value.strip()\<close>: only a string has the method.\<close>

definition strip_method :: "json \<Rightarrow> error + string" where
  "strip_method v = (case v of JString s \<Rightarrow> Inr (strip s) | _ \<Rightarrow> Inl AttributeError)"

definition strptime_date :: "json \<Rightarrow> error + date" where
  "strptime_date v =
     (case v of
        JString s \<Rightarrow> (case strptime s of None \<Rightarrow> Inl ValueError | Some d \<Rightarrow> Inr d)
      | _ \<Rightarrow> Inl TypeError)"

text \<open>The body of the \<open>try\<close> block, in the order Python evaluates it.\<close>

definition entry_person :: "json \<Rightarrow> error + Person" where
  "entry_person entry =
     (case getitem entry ''date'' of Inl e \<Rightarrow> Inl e | Inr d \<Rightarrow>
     (case strptime_date d of Inl e \<Rightarrow> Inl e | Inr b \<Rightarrow>
     (case getitem entry ''name'' of Inl e \<Rightarrow> Inl e | Inr n \<Rightarrow>
     (case strip_method n of Inl e \<Rightarrow> Inl e | Inr n' \<Rightarrow>
     (case getitem entry ''nickname'' of Inl e \<Rightarrow> Inl e | Inr k \<Rightarrow>
     (case strip_method k of Inl e \<Rightarrow> Inl e | Inr k' \<Rightarrow>
        Inr \<lparr>name = n', nickname = k', birthday = b\<rparr>))))))"

text \<open>The \<open>try\<close> statement: a \<open>KeyError\<close> is replaced, anything else passes.\<close>

definition load_entry :: "json \<Rightarrow> error + Person" where
  "load_entry entry =
     (case entry_person entry of
        Inl (KeyError k) \<Rightarrow> Inl (MalformedEntry entry k)
      | r \<Rightarrow> r)"

fun load_entries :: "json list \<Rightarrow> Person list \<Rightarrow> error + Person list" where
  "load_entries [] people = Inr people"
| "load_entries (entry # entries) people =
     (case load_entry entry of
        Inl e \<Rightarrow> Inl e
      | Inr person \<Rightarrow> load_entries entries (people @ [person]))"

definition load_birthdays :: "world \<Rightarrow> string \<Rightarrow> error + Person list" where
  "load_birthdays w path =
     (case read_json w path of
        Inl e \<Rightarrow> Inl e
      | Inr doc \<Rightarrow>
          (case iterate doc of Inl e \<Rightarrow> Inl e | Inr entries \<Rightarrow> load_entries entries []))"

text \<open>The list comprehension of \<open>load_message_templates\<close>: the condition and the
  element both call \<open>entry.strip()\<close>.\<close>

fun template_entries :: "json list \<Rightarrow> error + MessageTemplate list" where
  "template_entries [] = Inr []"
| "template_entries (entry # entries) =
     (case strip_method entry of
        Inl e \<Rightarrow> Inl e
      | Inr s \<Rightarrow>
          if s \<noteq> [] then
            (case strip_method entry of
               Inl e \<Rightarrow> Inl e
             | Inr s' \<Rightarrow>
                 (case template_entries entries of
                    Inl e \<Rightarrow> Inl e
                  | Inr ts \<Rightarrow> Inr (\<lparr>template_text = s'\<rparr> # ts)))
          else template_entries entries)"

definition load_message_templates :: "world \<Rightarrow> string \<Rightarrow> error + MessageTemplate list" where
  "load_message_templates w path =
     (case read_json w path of
        Inl e \<Rightarrow> Inl e
      | Inr doc \<Rightarrow>
          (case iterate doc of Inl e \<Rightarrow> Inl e | Inr entries \<Rightarrow> template_entries entries))"

section \<open>Selecting the messages\<close>

definition choice :: "'a list \<Rightarrow> world \<Rightarrow> (error + 'a) \<times> world" where
  "choice xs w =
     (if xs = [] then (Inl IndexError, w)
      else (Inr (xs ! (rand w (draws w) mod length xs)), w\<lparr>draws := Suc (draws w)\<rparr>))"

fun select_loop ::
  "Person list \<Rightarrow> MessageTemplate list \<Rightarrow> string list \<Rightarrow> world
     \<Rightarrow> (error + string list) \<times> world" where
  "select_loop [] templates messages w = (Inr messages, w)"
| "select_loop (person # people) templates messages w =
     (case choice templates w of
        (Inl e, w') \<Rightarrow> (Inl e, w')
      | (Inr template, w') \<Rightarrow>
          (case render template person of
             Inl e \<Rightarrow> (Inl e, w')
           | Inr message \<Rightarrow> select_loop people templates (messages @ [message]) w'))"

definition select_messages ::
  "Person list \<Rightarrow> MessageTemplate list \<Rightarrow> world \<Rightarrow> (error + string list) \<times> world" where
  "select_messages people templates w =
     (if templates = [] then (Inl NoTemplatesAvailable, w)
      else select_loop people templates [] w)"

section \<open>Configuration and transport\<close>

definition get_env_variable :: "string \<Rightarrow> world \<Rightarrow> (error + string) \<times> world" where
  "get_env_variable var w =
     (let w' = w\<lparr>lookups := lookups w @ [var]\<rparr>
      in case environ w var of
           None \<Rightarrow> (Inl (MissingEnvironmentVariableError var), w')
         | Some v \<Rightarrow>
             if v = [] then (Inl (MissingEnvironmentVariableError var), w')
             else (Inr v, w'))"

definition telegram_request :: "string \<Rightarrow> string \<Rightarrow> string \<Rightarrow> request" where
  "telegram_request token chat message =
     \<lparr>req_url = ''https://api.telegram.org/bot'' @ token @ ''/sendMessage'',
      req_chat_id = chat, req_text = message, req_parse_mode = ''Markdown'',
      req_timeout = 30\<rparr>"

definition send_telegram_message ::
  "string \<Rightarrow> string \<Rightarrow> string \<Rightarrow> world \<Rightarrow> (error + unit) \<times> world" where
  "send_telegram_message token chat message w =
     (let rq = telegram_request token chat message;
          w' = w\<lparr>posts := posts w @ [rq]\<rparr>
      in case server w (length (posts w)) rq of
           Request_failed \<Rightarrow> (Inl RequestException, w')
         | Response status_code response_text \<Rightarrow>
             if status_code \<ge> 400
             then (Inl (TelegramApiError status_code response_text), w')
             else (Inr (), w'))"

text \<open>What a reply makes \<open>send_telegram_message\<close> raise, if anything.\<close>

definition refusal :: "reply \<Rightarrow> error option" where
  "refusal r =
     (case r of
        Request_failed \<Rightarrow> Some RequestException
      | Response status_code response_text \<Rightarrow>
          if status_code \<ge> 400 then Some (TelegramApiError status_code response_text)
          else None)"

section \<open>The pipeline\<close>

primrec celebrants :: "Person list \<Rightarrow> date \<Rightarrow> Person list" where
  "celebrants [] today = []"
| "celebrants (person # people) today =
     (if month (birthday person) = month today \<and> day (birthday person) = day today
      then person # celebrants people today
      else celebrants people today)"

fun send_loop :: "string \<Rightarrow> string \<Rightarrow> string list \<Rightarrow> world \<Rightarrow> (error + unit) \<times> world" where
  "send_loop token chat [] w = (Inr (), w)"
| "send_loop token chat (message # messages) w =
     (case send_telegram_message token chat message w of
        (Inl e, w') \<Rightarrow> (Inl e, w')
      | (Inr u, w') \<Rightarrow> send_loop token chat messages w')"

definition congratulate_today ::
  "date option \<Rightarrow> string \<Rightarrow> string \<Rightarrow> world \<Rightarrow> (error + string list) \<times> world" where
  "congratulate_today today birthdays_path messages_path w =
     (let today' = (case today of None \<Rightarrow> clock w | Some d \<Rightarrow> d)
      in case load_birthdays w birthdays_path of
           Inl e \<Rightarrow> (Inl e, w)
         | Inr people \<Rightarrow>
      (case load_message_templates w messages_path of
           Inl e \<Rightarrow> (Inl e, w)
         | Inr templates \<Rightarrow>
      (let cs = celebrants people today'
       in if cs = [] then (Inr [], w)
          else
      (case get_env_variable ''TELEGRAM_BOT_TOKEN'' w of
           (Inl e, w1) \<Rightarrow> (Inl e, w1)
         | (Inr token, w1) \<Rightarrow>
      (case get_env_variable ''TELEGRAM_CHAT_ID'' w1 of
           (Inl e, w2) \<Rightarrow> (Inl e, w2)
         | (Inr chat, w2) \<Rightarrow>
      (case select_messages cs templates w2 of
           (Inl e, w3) \<Rightarrow> (Inl e, w3)
         | (Inr messages, w3) \<Rightarrow>
      (case send_loop token chat messages w3 of
           (Inl e, w4) \<Rightarrow> (Inl e, w4)
         | (Inr u, w4) \<Rightarrow> (Inr messages, w4))))))))"

section \<open>The entry point\<close>

text \<open>
  The default paths, relative to the directory that holds the package. A run ends by
  printing lines and leaving with status 0, by \<open>SystemExit(str(exc))\<close>, which prints
  the message of the error and leaves with status 1, or by an exception nobody
  catches, which prints a traceback and leaves with status 1.
\<close>

definition BIRTHDAYS_PATH :: string where
  "BIRTHDAYS_PATH = ''data/birthdays.json''"

definition MESSAGES_PATH :: string where
  "MESSAGES_PATH = ''data/messages.json''"




section \<open>The reading of the specification\<close>

text \<open>
  What the specification says of rendering: the template text with \<open>{name}\<close> replaced
  by the name and \<open>{mention}\<close> replaced by the mention, read from the left.
\<close>

fun substitute :: "string \<Rightarrow> string \<Rightarrow> string \<Rightarrow> string" where
  "substitute n m [] = []"
| "substitute n m (c # cs) =
     (if take 6 (c # cs) = ''{name}'' then n @ substitute n m (drop 5 cs)
      else if take 9 (c # cs) = ''{mention}'' then m @ substitute n m (drop 8 cs)
      else c # substitute n m cs)"

text \<open>A template text whose braces all belong to a \<open>{name}\<close> or a \<open>{mention}\<close>.\<close>

fun placeholders_only :: "string \<Rightarrow> bool" where
  "placeholders_only [] = True"
| "placeholders_only (c # cs) =
     (if take 6 (c # cs) = ''{name}'' then placeholders_only (drop 5 cs)
      else if take 9 (c # cs) = ''{mention}'' then placeholders_only (drop 8 cs)
      else c \<noteq> CHR ''{'' \<and> c \<noteq> CHR ''}'' \<and> placeholders_only cs)"

section \<open>Sample data\<close>

definition ann :: Person where
  "ann = \<lparr>name = ''Ann'', nickname = ''ann'', birthday = \<lparr>year = 1990, month = 3, day = 4\<rparr>\<rparr>"

definition bob :: Person where
  "bob = \<lparr>name = ''Bob'', nickname = ''@bob'', birthday = \<lparr>year = 1985, month = 7, day = 9\<rparr>\<rparr>"

definition ann_entry :: json where
  "ann_entry = JObject [(''name'', JString ''Ann''), (''nickname'', JString ''ann''),
                        (''date'', JString ''1990-03-04'')]"

definition bob_entry :: json where
  "bob_entry = JObject [(''name'', JString '' Bob''), (''nickname'', JString ''@bob ''),
                        (''date'', JString ''1985-07-09'')]"

text \<open>A world with both data files, no environment variable, a generator that always
  returns 0 and a server that accepts everything.\<close>

definition sample_world :: world where
  "sample_world =
     \<lparr>files = (\<lambda>path.
         if path = BIRTHDAYS_PATH then Json (JArray [ann_entry, bob_entry])
         else if path = MESSAGES_PATH
         then Json (JArray [JString ''Happy birthday, {mention}!'', JString ''  ''])
         else No_file),
      environ = (\<lambda>var. None),
      clock = \<lparr>year = 2024, month = 1, day = 1\<rparr>,
      rand = (\<lambda>k. 0),
      draws = 0,
      server = (\<lambda>k rq. Response 200 ''ok''),
      posts = [],
      lookups = []\<rparr>"

definition cat :: Person where
  "cat = \<lparr>name = ''Cat'', nickname = ''cat'', birthday = \<lparr>year = 1992, month = 3, day = 4\<rparr>\<rparr>"

definition dan :: Person where
  "dan = \<lparr>name = ''Dan'', nickname = ''dan'', birthday = \<lparr>year = 2001, month = 3, day = 4\<rparr>\<rparr>"

definition cat_entry :: json where
  "cat_entry = JObject [(''name'', JString ''Cat''), (''nickname'', JString ''cat''),
                        (''date'', JString ''1992-03-04'')]"

definition dan_entry :: json where
  "dan_entry = JObject [(''name'', JString ''Dan''), (''nickname'', JString ''dan''),
                        (''date'', JString ''2001-3-4'')]"

text \<open>A world in which three people share the fourth of March, both configuration
  values are set, and the server refuses the second request it receives.\<close>

definition party_world :: world where
  "party_world =
     \<lparr>files = (\<lambda>path.
         if path = BIRTHDAYS_PATH
         then Json (JArray [ann_entry, bob_entry, cat_entry, dan_entry])
         else if path = MESSAGES_PATH
         then Json (JArray [JString ''Happy birthday, {mention}!'', JString ''  ''])
         else No_file),
      environ = (\<lambda>var.
         if var = ''TELEGRAM_BOT_TOKEN'' then Some ''T''
         else if var = ''TELEGRAM_CHAT_ID'' then Some ''C'' else None),
      clock = \<lparr>year = 2024, month = 3, day = 4\<rparr>,
      rand = (\<lambda>k. k),
      draws = 0,
      server = (\<lambda>k rq. if k = 1 then Response 401 ''Unauthorized'' else Response 200 ''ok''),
      posts = [],
      lookups = []\<rparr>"

definition two_templates :: "MessageTemplate list" where
  "two_templates = [\<lparr>template_text = ''Happy birthday, {mention}!''\<rparr>,
                    \<lparr>template_text = ''Hi {name} ({mention})''\<rparr>]"


section \<open>Facts about the sample data\<close>

lemmas date_parsing_defs =
  strptime_date_def strptime_def match_year_def match_month_def match_day_def isdigit_def
  digit_value_def nonzero_digit_def days_in_month_def is_leap_def

lemmas entry_loading_defs =
  load_entry_def entry_person_def getitem_def strip_method_def strip_def isspace_def

lemma sample_birthdays: "load_birthdays sample_world BIRTHDAYS_PATH = Inr [ann, bob]"
  by (simp add: load_birthdays_def read_json_def sample_world_def ann_entry_def bob_entry_def
      entry_loading_defs date_parsing_defs ann_def bob_def)

lemma sample_templates:
  "load_message_templates sample_world MESSAGES_PATH
     = Inr [\<lparr>template_text = ''Happy birthday, {mention}!''\<rparr>]"
  by (simp add: load_message_templates_def read_json_def sample_world_def
      BIRTHDAYS_PATH_def MESSAGES_PATH_def strip_method_def strip_def isspace_def)

lemma party_birthdays: "load_birthdays party_world BIRTHDAYS_PATH = Inr [ann, bob, cat, dan]"
  by (simp add: load_birthdays_def read_json_def party_world_def ann_entry_def bob_entry_def
      cat_entry_def dan_entry_def entry_loading_defs date_parsing_defs
      ann_def bob_def cat_def dan_def)

lemma party_templates:
  "load_message_templates party_world MESSAGES_PATH
     = Inr [\<lparr>template_text = ''Happy birthday, {mention}!''\<rparr>]"
  by (simp add: load_message_templates_def read_json_def party_world_def
      BIRTHDAYS_PATH_def MESSAGES_PATH_def strip_method_def strip_def isspace_def)

lemmas rendering_defs =
  render_def mention_def strip_def isspace_def startswith_def emit_def get_field_def
  special_def isdigit_def

lemma party_messages:
  "fst (select_messages [ann, cat, dan] [\<lparr>template_text = ''Happy birthday, {mention}!''\<rparr>]
          party_world)
     = Inr [''Happy birthday, @ann!'', ''Happy birthday, @cat!'', ''Happy birthday, @dan!'']"
  by (simp add: select_messages_def choice_def rendering_defs ann_def cat_def dan_def)


section \<open>The celebrant filter\<close>

lemma celebrants_eq_filter:
  "celebrants people today =
     filter (\<lambda>p. month (birthday p) = month today \<and> day (birthday p) = day today) people"
  by (induction people) simp_all

text \<open>
  Claim C3. For every list of people and every reference date, the celebrants are
  exactly the people whose birthday has the month and the day of the reference date:
  the result is the input list filtered by that test, so it has those people and no
  others, each as often as the input has it, in the order of the input. Neither
  the year of the reference date nor the year of a birthday plays a part, and when
  nobody matches the result is the empty list, not an error.
\<close>

theorem celebrants_filter:
  "celebrants people today =
     filter (\<lambda>p. month (birthday p) = month today \<and> day (birthday p) = day today) people
   \<and> set (celebrants people today) =
     {p \<in> set people. month (birthday p) = month today \<and> day (birthday p) = day today}
   \<and> subseq (celebrants people today) people
   \<and> celebrants people (today\<lparr>year := y\<rparr>) = celebrants people today
   \<and> celebrants (map (\<lambda>p. p\<lparr>birthday := (birthday p)\<lparr>year := born p\<rparr>\<rparr>) people) today
       = map (\<lambda>p. p\<lparr>birthday := (birthday p)\<lparr>year := born p\<rparr>\<rparr>) (celebrants people today)
   \<and> ((\<forall>p \<in> set people. \<not> (month (birthday p) = month today \<and> day (birthday p) = day today))
        \<longrightarrow> celebrants people today = [])"
proof -
  have "subseq (celebrants people today) people"
    by (simp add: celebrants_eq_filter)
  moreover have "celebrants people (today\<lparr>year := y\<rparr>) = celebrants people today"
    by (simp add: celebrants_eq_filter)
  moreover have "(\<forall>p \<in> set people. \<not> (month (birthday p) = month today \<and> day (birthday p) = day today))
        \<longrightarrow> celebrants people today = []"
    by (simp add: celebrants_eq_filter)
  moreover have "set (celebrants people today) =
     {p \<in> set people. month (birthday p) = month today \<and> day (birthday p) = day today}"
    by (simp add: celebrants_eq_filter)
  moreover have "celebrants (map (\<lambda>p. p\<lparr>birthday := (birthday p)\<lparr>year := born p\<rparr>\<rparr>) people) today
       = map (\<lambda>p. p\<lparr>birthday := (birthday p)\<lparr>year := born p\<rparr>\<rparr>) (celebrants people today)"
    by (induction people) simp_all
  ultimately show ?thesis
    using celebrants_eq_filter by blast
qed

theorem celebrants_filter_witness:
  "month (birthday ann) \<noteq> month \<lparr>year = 2024, month = 1, day = 1\<rparr>
   \<and> month (birthday bob) \<noteq> month \<lparr>year = 2024, month = 1, day = 1\<rparr>
   \<and> celebrants [ann, bob] \<lparr>year = 2024, month = 1, day = 1\<rparr> = []
   \<and> celebrants [ann, bob, ann] \<lparr>year = 2024, month = 3, day = 4\<rparr> = [ann, ann]"
  using celebrants_filter [of "[ann, bob]" "\<lparr>year = 2024, month = 1, day = 1\<rparr>"]
        celebrants_filter [of "[ann, bob, ann]" "\<lparr>year = 2024, month = 3, day = 4\<rparr>"]
  by (simp add: ann_def bob_def)

section \<open>A day without celebrants\<close>

text \<open>
  Claim C4. When both files load and nobody has a birthday on the reference date, the
  run returns the empty list and leaves the world as it found it: no environment
  variable has been looked up and no request has been issued, whatever the
  environment holds, so a missing \<open>TELEGRAM_BOT_TOKEN\<close> or \<open>TELEGRAM_CHAT_ID\<close> is not an
  error on such a day.
\<close>

theorem no_celebrants_no_configuration:
  assumes "load_birthdays w birthdays_path = Inr people"
    and "load_message_templates w messages_path = Inr templates"
    and "celebrants people (case today of None \<Rightarrow> clock w | Some d \<Rightarrow> d) = []"
  shows "congratulate_today today birthdays_path messages_path w = (Inr [], w)
    \<and> lookups (snd (congratulate_today today birthdays_path messages_path w)) = lookups w
    \<and> posts (snd (congratulate_today today birthdays_path messages_path w)) = posts w"
  using assms by (simp add: congratulate_today_def)

theorem no_celebrants_no_configuration_witness:
  "environ sample_world ''TELEGRAM_BOT_TOKEN'' = None
   \<and> environ sample_world ''TELEGRAM_CHAT_ID'' = None
   \<and> celebrants [ann, bob] (clock sample_world) = []
   \<and> congratulate_today None BIRTHDAYS_PATH MESSAGES_PATH sample_world = (Inr [], sample_world)
   \<and> lookups (snd (congratulate_today None BIRTHDAYS_PATH MESSAGES_PATH sample_world)) = []
   \<and> posts (snd (congratulate_today None BIRTHDAYS_PATH MESSAGES_PATH sample_world)) = []"
proof -
  have none: "celebrants [ann, bob] (case None of None \<Rightarrow> clock sample_world | Some d \<Rightarrow> d) = []"
    by (simp add: sample_world_def ann_def bob_def)
  show ?thesis
    using no_celebrants_no_configuration [OF sample_birthdays sample_templates none] none
    by (simp add: sample_world_def)
qed

section \<open>Sending one message\<close>

text \<open>
  Claim C6. When the server answers a request with a status code and a body, sending
  succeeds exactly when the status code is below 400; for a status code of 400 or more
  it fails with \<open>TelegramApiError\<close> carrying that status code and that body unchanged.
  Either way exactly one request has been issued.
\<close>

theorem send_below_400:
  assumes "server w (length (posts w)) (telegram_request token chat message)
             = Response status body"
  shows "(fst (send_telegram_message token chat message w) = Inr ()) = (status < 400)
    \<and> (400 \<le> status \<longrightarrow>
          fst (send_telegram_message token chat message w) = Inl (TelegramApiError status body))
    \<and> posts (snd (send_telegram_message token chat message w))
          = posts w @ [telegram_request token chat message]"
  using assms by (simp add: send_telegram_message_def Let_def)

theorem send_below_400_witness:
  "fst (send_telegram_message ''t'' ''c'' ''hi'' (sample_world\<lparr>server := \<lambda>k rq. Response 401 ''Unauthorized''\<rparr>))
     = Inl (TelegramApiError 401 ''Unauthorized'')
   \<and> fst (send_telegram_message ''t'' ''c'' ''hi'' (sample_world\<lparr>server := \<lambda>k rq. Response 399 ''x''\<rparr>))
     = Inr ()"
  using send_below_400 [of "sample_world\<lparr>server := \<lambda>k rq. Response 401 ''Unauthorized''\<rparr>"
          "''t''" "''c''" "''hi''" 401 "''Unauthorized''"]
        send_below_400 [of "sample_world\<lparr>server := \<lambda>k rq. Response 399 ''x''\<rparr>"
          "''t''" "''c''" "''hi''" 399 "''x''"]
  by simp

section \<open>Configuration lookup\<close>

lemma get_env_variable_result:
  "get_env_variable var w =
     (case environ w var of
        None \<Rightarrow> Inl (MissingEnvironmentVariableError var)
      | Some v \<Rightarrow> if v = [] then Inl (MissingEnvironmentVariableError var) else Inr v,
      w\<lparr>lookups := lookups w @ [var]\<rparr>)"
  by (simp add: get_env_variable_def Let_def split: option.splits)

text \<open>
  Claim C10. Looking a variable up fails with \<open>MissingEnvironmentVariableError\<close> naming
  the variable when the environment has no value for it and also when the value is the
  empty string; any other value is returned unchanged. So a run with at least one
  celebrant and \<open>TELEGRAM_BOT_TOKEN\<close> set to the empty string fails with that error for
  \<open>TELEGRAM_BOT_TOKEN\<close>, before any request is issued.
\<close>

theorem empty_variable_is_missing:
  "((environ w var = None \<or> environ w var = Some [])
      \<longrightarrow> fst (get_env_variable var w) = Inl (MissingEnvironmentVariableError var))
   \<and> (\<forall>v. environ w var = Some v \<and> v \<noteq> [] \<longrightarrow> fst (get_env_variable var w) = Inr v)
   \<and> (load_birthdays w birthdays_path = Inr people
        \<and> load_message_templates w messages_path = Inr templates
        \<and> celebrants people (case today of None \<Rightarrow> clock w | Some d \<Rightarrow> d) \<noteq> []
        \<and> environ w ''TELEGRAM_BOT_TOKEN'' = Some []
      \<longrightarrow> fst (congratulate_today today birthdays_path messages_path w)
            = Inl (MissingEnvironmentVariableError ''TELEGRAM_BOT_TOKEN'')
          \<and> posts (snd (congratulate_today today birthdays_path messages_path w)) = posts w)"
  by (auto simp add: get_env_variable_result congratulate_today_def)

theorem empty_variable_is_missing_witness:
  "fst (congratulate_today (Some \<lparr>year = 2024, month = 3, day = 4\<rparr>) BIRTHDAYS_PATH MESSAGES_PATH
          (sample_world\<lparr>environ := (\<lambda>var. Some [])\<rparr>))
     = Inl (MissingEnvironmentVariableError ''TELEGRAM_BOT_TOKEN'')
   \<and> fst (get_env_variable ''TELEGRAM_CHAT_ID'' sample_world)
     = Inl (MissingEnvironmentVariableError ''TELEGRAM_CHAT_ID'')
   \<and> fst (get_env_variable ''TELEGRAM_CHAT_ID'' (sample_world\<lparr>environ := (\<lambda>var. Some ''42'')\<rparr>))
     = Inr ''42''"
proof -
  let ?w = "sample_world\<lparr>environ := (\<lambda>var. Some [])\<rparr>"
  have b: "load_birthdays ?w BIRTHDAYS_PATH = Inr [ann, bob]"
    using sample_birthdays by (simp add: load_birthdays_def read_json_def)
  have t: "load_message_templates ?w MESSAGES_PATH
             = Inr [\<lparr>template_text = ''Happy birthday, {mention}!''\<rparr>]"
    using sample_templates by (simp add: load_message_templates_def read_json_def)
  have c: "celebrants [ann, bob] (case Some \<lparr>year = 2024, month = 3, day = 4\<rparr> of
             None \<Rightarrow> clock ?w | Some d \<Rightarrow> d) \<noteq> []"
    by (simp add: ann_def)
  have e: "environ ?w ''TELEGRAM_BOT_TOKEN'' = Some []"
    by simp
  show ?thesis
    using empty_variable_is_missing [of ?w "''TELEGRAM_BOT_TOKEN''" BIRTHDAYS_PATH "[ann, bob]"
            MESSAGES_PATH "[\<lparr>template_text = ''Happy birthday, {mention}!''\<rparr>]"
            "Some \<lparr>year = 2024, month = 3, day = 4\<rparr>"]
          empty_variable_is_missing [of sample_world "''TELEGRAM_CHAT_ID''"]
          empty_variable_is_missing [of "sample_world\<lparr>environ := (\<lambda>var. Some ''42'')\<rparr>" "''TELEGRAM_CHAT_ID''"]
          b t c e
    by (simp add: sample_world_def)
qed

section \<open>The world after the selection\<close>

lemma choice_lookups:
  "choice xs (w\<lparr>lookups := l\<rparr>) = (fst (choice xs w), (snd (choice xs w))\<lparr>lookups := l\<rparr>)"
  by (simp add: choice_def)

lemma select_loop_lookups:
  "select_loop people templates acc (w\<lparr>lookups := l\<rparr>)
     = (fst (select_loop people templates acc w), (snd (select_loop people templates acc w))\<lparr>lookups := l\<rparr>)"
proof (induction people arbitrary: acc w)
  case Nil
  then show ?case by simp
next
  case (Cons p ps)
  then show ?case
    by (simp add: choice_lookups split: prod.splits sum.splits)
qed

lemma select_messages_lookups:
  "select_messages people templates (w\<lparr>lookups := l\<rparr>)
     = (fst (select_messages people templates w), (snd (select_messages people templates w))\<lparr>lookups := l\<rparr>)"
  by (simp add: select_messages_def select_loop_lookups)

lemma select_loop_world:
  "\<exists>n \<le> length people. snd (select_loop people templates acc w) = w\<lparr>draws := draws w + n\<rparr>"
proof (induction people arbitrary: acc w)
  case Nil
  then show ?case by simp
next
  case (Cons p ps)
  show ?case
  proof (cases "templates = []")
    case True
    then have "snd (select_loop (p # ps) templates acc w) = w\<lparr>draws := draws w + 0\<rparr>"
      by (simp add: choice_def)
    then show ?thesis by (intro exI [of _ 0]) simp
  next
    case False
    let ?w = "w\<lparr>draws := Suc (draws w)\<rparr>"
    let ?t = "templates ! (rand w (draws w) mod length templates)"
    show ?thesis
    proof (cases "render ?t p")
      case (Inl e)
      then have "snd (select_loop (p # ps) templates acc w) = w\<lparr>draws := draws w + 1\<rparr>"
        using False by (simp add: choice_def)
      then show ?thesis by (intro exI [of _ 1]) simp
    next
      case (Inr m)
      obtain n where n: "n \<le> length ps"
        "snd (select_loop ps templates (acc @ [m]) ?w) = ?w\<lparr>draws := draws ?w + n\<rparr>"
        using Cons.IH [of "acc @ [m]" ?w] by blast
      have "snd (select_loop (p # ps) templates acc w) = w\<lparr>draws := draws w + Suc n\<rparr>"
        using False Inr n(2) by (simp add: choice_def)
      then show ?thesis using n(1) by (intro exI [of _ "Suc n"]) simp
    qed
  qed
qed

lemma select_messages_world:
  "\<exists>n \<le> length people. snd (select_messages people templates w) = w\<lparr>draws := draws w + n\<rparr>"
proof (cases "templates = []")
  case True
  then have "snd (select_messages people templates w) = w\<lparr>draws := draws w + 0\<rparr>"
    by (simp add: select_messages_def)
  then show ?thesis by (intro exI [of _ 0]) simp
next
  case False
  then show ?thesis using select_loop_world by (simp add: select_messages_def)
qed


section \<open>The send loop\<close>

lemma send_telegram_message_refusal:
  "send_telegram_message token chat message w =
     (case refusal (server w (length (posts w)) (telegram_request token chat message)) of
        None \<Rightarrow> Inr () | Some e \<Rightarrow> Inl e,
      w\<lparr>posts := posts w @ [telegram_request token chat message]\<rparr>)"
  by (simp add: send_telegram_message_def refusal_def Let_def split: reply.splits)

lemma send_loop_all_accepted:
  "(\<And>i. i < length messages \<Longrightarrow>
      refusal (server w (length (posts w) + i) (telegram_request token chat (messages ! i))) = None)
   \<Longrightarrow> send_loop token chat messages w
         = (Inr (), w\<lparr>posts := posts w @ map (telegram_request token chat) messages\<rparr>)"
proof (induction messages arbitrary: w)
  case Nil
  then show ?case by simp
next
  case (Cons m ms)
  let ?w = "w\<lparr>posts := posts w @ [telegram_request token chat m]\<rparr>"
  have first: "refusal (server w (length (posts w)) (telegram_request token chat m)) = None"
    using Cons.prems [of 0] by simp
  have rest: "refusal (server ?w (length (posts ?w) + i) (telegram_request token chat (ms ! i))) = None"
    if "i < length ms" for i
    using Cons.prems [of "Suc i"] that by simp
  have "send_loop token chat ms ?w
          = (Inr (), ?w\<lparr>posts := posts ?w @ map (telegram_request token chat) ms\<rparr>)"
    using Cons.IH [of ?w] rest by blast
  then show ?case
    using first by (simp add: send_telegram_message_refusal)
qed

lemma send_loop_first_failure:
  "k < length messages \<Longrightarrow>
   (\<And>i. i < k \<Longrightarrow>
      refusal (server w (length (posts w) + i) (telegram_request token chat (messages ! i))) = None) \<Longrightarrow>
   refusal (server w (length (posts w) + k) (telegram_request token chat (messages ! k))) = Some e
   \<Longrightarrow> send_loop token chat messages w
         = (Inl e, w\<lparr>posts := posts w @ map (telegram_request token chat) (take (Suc k) messages)\<rparr>)"
proof (induction messages arbitrary: w k)
  case Nil
  then show ?case by simp
next
  case (Cons m ms)
  let ?w = "w\<lparr>posts := posts w @ [telegram_request token chat m]\<rparr>"
  show ?case
  proof (cases k)
    case 0
    then show ?thesis
      using Cons.prems(3) by (simp add: send_telegram_message_refusal)
  next
    case (Suc j)
    have first: "refusal (server w (length (posts w)) (telegram_request token chat m)) = None"
      using Cons.prems(2) [of 0] Suc by simp
    have before: "refusal (server ?w (length (posts ?w) + i) (telegram_request token chat (ms ! i))) = None"
      if "i < j" for i
      using Cons.prems(2) [of "Suc i"] that Suc by simp
    have at: "refusal (server ?w (length (posts ?w) + j) (telegram_request token chat (ms ! j))) = Some e"
      using Cons.prems(3) Suc by simp
    have "j < length ms"
      using Cons.prems(1) Suc by simp
    then have "send_loop token chat ms ?w
          = (Inl e, ?w\<lparr>posts := posts ?w @ map (telegram_request token chat) (take (Suc j) ms)\<rparr>)"
      using Cons.IH [of j ?w] before at by blast
    then show ?thesis
      using first Suc by (simp add: send_telegram_message_refusal)
  qed
qed


text \<open>
  Claim C2. Take a run that reaches the send phase: both files load, there is a
  celebrant, both configuration values are present and the selection yields the
  messages. The requests then go out in the order of the messages, which is the order
  of the celebrants. If the server accepts every one, all are issued and the run returns
  the messages. If the reply to message number k is the first that is not accepted, the
  run fails with the error of that reply, and the requests issued are exactly those
  for the messages up to and including number k, each once: the earlier ones stay
  sent, the failing one is not repeated, and no later one is attempted.
\<close>

theorem sends_stop_at_first_failure:
  assumes "load_birthdays w birthdays_path = Inr people"
    and "load_message_templates w messages_path = Inr templates"
    and "celebrants people (case today of None \<Rightarrow> clock w | Some d \<Rightarrow> d) \<noteq> []"
    and "environ w ''TELEGRAM_BOT_TOKEN'' = Some token" and "token \<noteq> []"
    and "environ w ''TELEGRAM_CHAT_ID'' = Some chat" and "chat \<noteq> []"
    and "fst (select_messages (celebrants people (case today of None \<Rightarrow> clock w | Some d \<Rightarrow> d))
                templates w) = Inr messages"
  shows "((\<forall>i < length messages.
             refusal (server w (length (posts w) + i)
                        (telegram_request token chat (messages ! i))) = None)
          \<longrightarrow> fst (congratulate_today today birthdays_path messages_path w) = Inr messages
            \<and> posts (snd (congratulate_today today birthdays_path messages_path w))
                = posts w @ map (telegram_request token chat) messages)
    \<and> (\<forall>k e. k < length messages
             \<and> (\<forall>i < k. refusal (server w (length (posts w) + i)
                                   (telegram_request token chat (messages ! i))) = None)
             \<and> refusal (server w (length (posts w) + k)
                          (telegram_request token chat (messages ! k))) = Some e
          \<longrightarrow> fst (congratulate_today today birthdays_path messages_path w) = Inl e
            \<and> posts (snd (congratulate_today today birthdays_path messages_path w))
                = posts w @ map (telegram_request token chat) (take (Suc k) messages))"
proof -
  let ?cs = "celebrants people (case today of None \<Rightarrow> clock w | Some d \<Rightarrow> d)"
  obtain n where n: "snd (select_messages ?cs templates w) = w\<lparr>draws := draws w + n\<rparr>"
    using select_messages_world by blast
  define w3 where "w3 = w\<lparr>draws := draws w + n, lookups := lookups w @ [''TELEGRAM_BOT_TOKEN'', ''TELEGRAM_CHAT_ID'']\<rparr>"
  have sel: "select_messages ?cs templates (w\<lparr>lookups := lookups w @ [''TELEGRAM_BOT_TOKEN'', ''TELEGRAM_CHAT_ID'']\<rparr>)
               = (Inr messages, w3)"
    using assms(8) n by (simp add: select_messages_lookups w3_def)
  have run: "congratulate_today today birthdays_path messages_path w
               = (case send_loop token chat messages w3 of
                    (Inl e, w4) \<Rightarrow> (Inl e, w4) | (Inr u, w4) \<Rightarrow> (Inr messages, w4))"
    using assms(1-7) sel by (simp add: congratulate_today_def get_env_variable_result)
  have w3: "server w3 = server w" "posts w3 = posts w"
    by (simp_all add: w3_def)
  show ?thesis
  proof (intro conjI allI impI)
    assume "\<forall>i < length messages.
             refusal (server w (length (posts w) + i)
                        (telegram_request token chat (messages ! i))) = None"
    then have "send_loop token chat messages w3
        = (Inr (), w3\<lparr>posts := posts w3 @ map (telegram_request token chat) messages\<rparr>)"
      using send_loop_all_accepted [of messages w3 token chat] w3 by simp
    then show "fst (congratulate_today today birthdays_path messages_path w) = Inr messages"
      and "posts (snd (congratulate_today today birthdays_path messages_path w))
                = posts w @ map (telegram_request token chat) messages"
      using run w3 by simp_all
  next
    fix k e
    assume h: "k < length messages
             \<and> (\<forall>i < k. refusal (server w (length (posts w) + i)
                                   (telegram_request token chat (messages ! i))) = None)
             \<and> refusal (server w (length (posts w) + k)
                          (telegram_request token chat (messages ! k))) = Some e"
    then have "send_loop token chat messages w3
        = (Inl e, w3\<lparr>posts := posts w3 @ map (telegram_request token chat) (take (Suc k) messages)\<rparr>)"
      using send_loop_first_failure [of k messages w3 token chat e] w3 by simp
    then show "fst (congratulate_today today birthdays_path messages_path w) = Inl e"
      and "posts (snd (congratulate_today today birthdays_path messages_path w))
                = posts w @ map (telegram_request token chat) (take (Suc k) messages)"
      using run w3 by simp_all
  qed
qed

theorem sends_stop_at_first_failure_witness:
  "fst (congratulate_today None BIRTHDAYS_PATH MESSAGES_PATH party_world)
     = Inl (TelegramApiError 401 ''Unauthorized'')
   \<and> posts (snd (congratulate_today None BIRTHDAYS_PATH MESSAGES_PATH party_world))
     = [telegram_request ''T'' ''C'' ''Happy birthday, @ann!'',
        telegram_request ''T'' ''C'' ''Happy birthday, @cat!'']
   \<and> fst (congratulate_today None BIRTHDAYS_PATH MESSAGES_PATH
            (party_world\<lparr>server := \<lambda>k rq. Response 200 ''ok''\<rparr>))
     = Inr [''Happy birthday, @ann!'', ''Happy birthday, @cat!'', ''Happy birthday, @dan!'']
   \<and> map req_text (posts (snd (congratulate_today None BIRTHDAYS_PATH MESSAGES_PATH
            (party_world\<lparr>server := \<lambda>k rq. Response 200 ''ok''\<rparr>))))
     = [''Happy birthday, @ann!'', ''Happy birthday, @cat!'', ''Happy birthday, @dan!'']"
proof -
  let ?ms = "[''Happy birthday, @ann!'', ''Happy birthday, @cat!'', ''Happy birthday, @dan!'']"
  let ?ts = "[\<lparr>template_text = ''Happy birthday, {mention}!''\<rparr>]"
  let ?w = "party_world\<lparr>server := \<lambda>k rq. Response 200 ''ok''\<rparr>"
  have cs: "celebrants [ann, bob, cat, dan] (case None of None \<Rightarrow> clock party_world | Some d \<Rightarrow> d)
              = [ann, cat, dan]"
    by (simp add: party_world_def ann_def bob_def cat_def dan_def)
  have cs': "celebrants [ann, bob, cat, dan] (case None of None \<Rightarrow> clock ?w | Some d \<Rightarrow> d)
              = [ann, cat, dan]"
    by (simp add: party_world_def ann_def bob_def cat_def dan_def)
  have env: "environ party_world ''TELEGRAM_BOT_TOKEN'' = Some ''T''"
    "environ party_world ''TELEGRAM_CHAT_ID'' = Some ''C''"
    by (simp_all add: party_world_def)
  have b': "load_birthdays ?w BIRTHDAYS_PATH = Inr [ann, bob, cat, dan]"
    using party_birthdays by (simp add: load_birthdays_def read_json_def)
  have t': "load_message_templates ?w MESSAGES_PATH = Inr ?ts"
    using party_templates by (simp add: load_message_templates_def read_json_def)
  have m': "fst (select_messages [ann, cat, dan] ?ts ?w) = Inr ?ms"
    by (simp add: select_messages_def choice_def rendering_defs ann_def cat_def dan_def)
  have refused:
    "fst (congratulate_today None BIRTHDAYS_PATH MESSAGES_PATH party_world)
       = Inl (TelegramApiError 401 ''Unauthorized'')
     \<and> posts (snd (congratulate_today None BIRTHDAYS_PATH MESSAGES_PATH party_world))
       = posts party_world @ map (telegram_request ''T'' ''C'') (take (Suc 1) ?ms)"
    using sends_stop_at_first_failure [of party_world BIRTHDAYS_PATH "[ann, bob, cat, dan]"
            MESSAGES_PATH ?ts None "''T''" "''C''" ?ms, THEN conjunct2, rule_format, of 1
            "TelegramApiError 401 ''Unauthorized''"]
          party_birthdays party_templates cs env party_messages
    by (simp add: party_world_def refusal_def)
  have accepted:
    "fst (congratulate_today None BIRTHDAYS_PATH MESSAGES_PATH ?w) = Inr ?ms
     \<and> posts (snd (congratulate_today None BIRTHDAYS_PATH MESSAGES_PATH ?w))
       = posts ?w @ map (telegram_request ''T'' ''C'') ?ms"
    using sends_stop_at_first_failure [of ?w BIRTHDAYS_PATH "[ann, bob, cat, dan]"
            MESSAGES_PATH ?ts None "''T''" "''C''" ?ms, THEN conjunct1]
          b' t' cs' env m'
    by (simp add: refusal_def)
  show ?thesis
    using refused accepted by (simp add: party_world_def telegram_request_def)
qed

section \<open>Selecting the messages\<close>

lemma emit_not_bot: "r \<noteq> Inl (BirthdayBotError m) \<Longrightarrow> emit v r \<noteq> Inl (BirthdayBotError m)"
  by (cases r) (simp_all add: emit_def)

lemma get_integer_not_bot: "get_integer accumulator fld \<noteq> Inl (BirthdayBotError m)"
  by (induction accumulator fld rule: get_integer.induct) simp_all

lemma get_field_not_bot: "get_field kw fld \<noteq> Inl (BirthdayBotError m)"
  using get_integer_not_bot [of 0 fld m]
  by (auto simp add: get_field_def split: option.splits sum.splits)

lemma format_not_bot:
  "format_text kw s \<noteq> Inl (BirthdayBotError m)"
  "format_field kw acc s \<noteq> Inl (BirthdayBotError m)"
proof (induction kw s and kw acc s rule: format_text_format_field.induct)
  case (1 kw)
  then show ?case by simp
next
  case (2 kw c cs)
  then show ?case
    by (cases cs) (auto simp add: emit_not_bot)
next
  case (3 kw acc)
  then show ?case by simp
next
  case (4 kw acc c cs)
  then show ?case
    using get_field_not_bot [of kw "rev acc" m]
    by (auto simp add: emit_not_bot split: sum.splits)
qed

lemma render_not_bot: "render t p \<noteq> Inl (BirthdayBotError m)"
  by (simp add: render_def format_not_bot)

lemma select_loop_not_bot:
  "templates \<noteq> [] \<Longrightarrow> fst (select_loop people templates acc w) \<noteq> Inl (BirthdayBotError m)"
proof (induction people arbitrary: acc w)
  case Nil
  then show ?case by simp
next
  case (Cons p ps)
  then show ?case
    using render_not_bot by (auto simp add: choice_def split: sum.splits)
qed

text \<open>
  Claim C1, as amended. \<open>select_messages\<close> fails with \<open>NoTemplatesAvailable\<close> exactly
  when the template sequence is empty, whether or not there is a celebrant; the check
  comes before any random draw, so the generator and the rest of the world are left
  untouched. In particular, for an empty celebrant sequence and an empty template
  sequence it fails with \<open>NoTemplatesAvailable\<close>.
\<close>

theorem no_templates_checked_first:
  "(fst (select_messages people templates w) = Inl NoTemplatesAvailable) = (templates = [])
   \<and> (templates = [] \<longrightarrow> snd (select_messages people templates w) = w
                          \<and> draws (snd (select_messages people templates w)) = draws w)"
  using select_loop_not_bot [of templates people "[]" w No_message_templates]
  by (auto simp add: select_messages_def)

text \<open>
  The claim as it stands asks for the empty sequence, without error, when both the
  celebrants and the templates are empty. The guard of \<open>select_messages\<close> does not look at
  the celebrants.
\<close>

theorem empty_celebrants_empty_templates_counterexample:
  "fst (select_messages [] [] sample_world) = Inl NoTemplatesAvailable
   \<and> fst (select_messages [] [] sample_world) \<noteq> Inr []"
  by (simp add: select_messages_def)

theorem no_templates_checked_first_witness:
  "select_messages [] [] sample_world = (Inl NoTemplatesAvailable, sample_world)
   \<and> select_messages [ann] [] sample_world = (Inl NoTemplatesAvailable, sample_world)
   \<and> draws (snd (select_messages [ann] [] sample_world)) = 0"
  using no_templates_checked_first [of "[]" "[]" sample_world]
        no_templates_checked_first [of "[ann]" "[]" sample_world]
  by (simp add: prod_eq_iff sample_world_def)

lemma map_upt_shift: "map f [0..<Suc n] = f 0 # map (\<lambda>i. f (Suc i)) [0..<n]"
  by (simp add: upt_conv_Cons map_Suc_upt [symmetric] del: upt_Suc)

lemma select_loop_all_render:
  assumes "templates \<noteq> []"
    and "\<And>i. i < length people \<Longrightarrow>
           render (templates ! (rand w (draws w + i) mod length templates)) (people ! i) = Inr (f i)"
  shows "select_loop people templates acc w
           = (Inr (acc @ map f [0..<length people]), w\<lparr>draws := draws w + length people\<rparr>)"
  using assms(2)
proof (induction people arbitrary: acc w f)
  case Nil
  then show ?case by simp
next
  case (Cons p ps)
  let ?w = "w\<lparr>draws := Suc (draws w)\<rparr>"
  have first: "render (templates ! (rand w (draws w) mod length templates)) p = Inr (f 0)"
    using Cons.prems [of 0] by simp
  have rest: "render (templates ! (rand ?w (draws ?w + i) mod length templates)) (ps ! i)
                = Inr (f (Suc i))" if "i < length ps" for i
    using Cons.prems [of "Suc i"] that by simp
  have "select_loop ps templates (acc @ [f 0]) ?w
          = (Inr ((acc @ [f 0]) @ map (\<lambda>i. f (Suc i)) [0..<length ps]),
             ?w\<lparr>draws := draws ?w + length ps\<rparr>)"
    using Cons.IH [of ?w "\<lambda>i. f (Suc i)" "acc @ [f 0]"] rest by blast
  then show ?case
    using assms(1) first by (simp add: choice_def map_upt_shift del: upt_Suc)
qed

lemma select_messages_all_render:
  assumes "templates \<noteq> []"
    and "\<forall>i < length people. \<exists>m.
           render (templates ! (rand w (draws w + i) mod length templates)) (people ! i) = Inr m"
  shows "\<exists>messages.
           select_messages people templates w
             = (Inr messages, w\<lparr>draws := draws w + length people\<rparr>)
           \<and> length messages = length people
           \<and> (\<forall>i < length people.
                 render (templates ! (rand w (draws w + i) mod length templates)) (people ! i)
                   = Inr (messages ! i))"
proof -
  have "\<forall>i. \<exists>m. i < length people \<longrightarrow>
           render (templates ! (rand w (draws w + i) mod length templates)) (people ! i) = Inr m"
    using assms(2) by blast
  then obtain f where f: "\<And>i. i < length people \<Longrightarrow>
           render (templates ! (rand w (draws w + i) mod length templates)) (people ! i) = Inr (f i)"
    by metis
  have "select_messages people templates w
          = (Inr (map f [0..<length people]), w\<lparr>draws := draws w + length people\<rparr>)"
    using select_loop_all_render [OF assms(1), of people w f "[]"] f assms(1)
    by (simp add: select_messages_def)
  then show ?thesis
    using f by (intro exI [of _ "map f [0..<length people]"]) simp
qed

lemma select_loop_first_render_failure:
  assumes "templates \<noteq> []"
  shows "k < length people \<Longrightarrow>
    (\<And>i. i < k \<Longrightarrow> \<exists>m.
       render (templates ! (rand w (draws w + i) mod length templates)) (people ! i) = Inr m) \<Longrightarrow>
    render (templates ! (rand w (draws w + k) mod length templates)) (people ! k) = Inl e \<Longrightarrow>
    select_loop people templates acc w = (Inl e, w\<lparr>draws := draws w + Suc k\<rparr>)"
proof (induction people arbitrary: acc w k)
  case Nil
  then show ?case by simp
next
  case (Cons p ps)
  let ?w = "w\<lparr>draws := Suc (draws w)\<rparr>"
  show ?case
  proof (cases k)
    case 0
    then show ?thesis
      using Cons.prems(3) assms by (simp add: choice_def)
  next
    case (Suc j)
    obtain m where first: "render (templates ! (rand w (draws w) mod length templates)) p = Inr m"
      using Cons.prems(2) [of 0] Suc by auto
    have before: "\<exists>m. render (templates ! (rand ?w (draws ?w + i) mod length templates)) (ps ! i) = Inr m"
      if "i < j" for i
      using Cons.prems(2) [of "Suc i"] that Suc by simp
    have at: "render (templates ! (rand ?w (draws ?w + j) mod length templates)) (ps ! j) = Inl e"
      using Cons.prems(3) Suc by simp
    have "j < length ps"
      using Cons.prems(1) Suc by simp
    then have "select_loop ps templates (acc @ [m]) ?w = (Inl e, ?w\<lparr>draws := draws ?w + Suc j\<rparr>)"
      using Cons.IH [of j ?w "acc @ [m]"] before at by blast
    then show ?thesis
      using first assms Suc by (simp add: choice_def)
  qed
qed

text \<open>
  Claim C7, as amended. For every non-empty template sequence and every celebrant
  sequence in which the template drawn for each celebrant renders without error,
  \<open>select_messages\<close> returns exactly one message per celebrant, in the order of the
  celebrants; message number i is the rendering, for celebrant number i, of the
  template at the index that draw number i of the generator picks, a member of the
  given sequence, and exactly one draw is made per celebrant. The index for one
  celebrant depends on that celebrant's draw alone: every assignment \<open>pick\<close> of template
  indices to celebrants, repeated indices included, is produced by some generator.
  When the drawn template of celebrant number k is the first that does not render,
  \<open>select_messages\<close> fails with the error of that rendering, after one draw for each
  celebrant up to and including number k, and returns no message.
\<close>

theorem select_messages_one_per_celebrant:
  assumes "templates \<noteq> []"
  shows "((\<forall>i < length people. \<exists>m.
             render (templates ! (rand w (draws w + i) mod length templates)) (people ! i) = Inr m)
          \<longrightarrow> (\<exists>messages.
                select_messages people templates w
                  = (Inr messages, w\<lparr>draws := draws w + length people\<rparr>)
                \<and> length messages = length people
                \<and> (\<forall>i < length people.
                      templates ! (rand w (draws w + i) mod length templates) \<in> set templates
                      \<and> render (templates ! (rand w (draws w + i) mod length templates))
                            (people ! i) = Inr (messages ! i))))
    \<and> (\<forall>pick.
          (\<forall>i < length people. pick i < length templates
              \<and> (\<exists>m. render (templates ! pick i) (people ! i) = Inr m))
          \<longrightarrow> (\<exists>messages.
                fst (select_messages people templates (w\<lparr>rand := \<lambda>k. pick (k - draws w)\<rparr>))
                  = Inr messages
                \<and> length messages = length people
                \<and> (\<forall>i < length people.
                      render (templates ! pick i) (people ! i) = Inr (messages ! i))))
    \<and> (\<forall>k e. k < length people
          \<and> (\<forall>i < k. \<exists>m.
                render (templates ! (rand w (draws w + i) mod length templates)) (people ! i)
                  = Inr m)
          \<and> render (templates ! (rand w (draws w + k) mod length templates)) (people ! k) = Inl e
          \<and> e \<noteq> Format_beyond_model
          \<longrightarrow> select_messages people templates w = (Inl e, w\<lparr>draws := draws w + Suc k\<rparr>))"
proof (intro conjI allI impI)
  assume "\<forall>i < length people. \<exists>m.
             render (templates ! (rand w (draws w + i) mod length templates)) (people ! i) = Inr m"
  then obtain messages where
    "select_messages people templates w = (Inr messages, w\<lparr>draws := draws w + length people\<rparr>)"
    "length messages = length people"
    "\<forall>i < length people.
        render (templates ! (rand w (draws w + i) mod length templates)) (people ! i)
          = Inr (messages ! i)"
    using select_messages_all_render [OF assms] by blast
  moreover have "templates ! (n mod length templates) \<in> set templates" for n
    using assms by simp
  ultimately show "\<exists>messages.
                select_messages people templates w
                  = (Inr messages, w\<lparr>draws := draws w + length people\<rparr>)
                \<and> length messages = length people
                \<and> (\<forall>i < length people.
                      templates ! (rand w (draws w + i) mod length templates) \<in> set templates
                      \<and> render (templates ! (rand w (draws w + i) mod length templates))
                            (people ! i) = Inr (messages ! i))"
    by blast
next
  fix pick
  assume pick: "\<forall>i < length people. pick i < length templates
              \<and> (\<exists>m. render (templates ! pick i) (people ! i) = Inr m)"
  let ?w = "w\<lparr>rand := \<lambda>k. pick (k - draws w)\<rparr>"
  have idx: "rand ?w (draws ?w + i) mod length templates = pick i" if "i < length people" for i
    using pick that by simp
  have "\<forall>i < length people. \<exists>m.
          render (templates ! (rand ?w (draws ?w + i) mod length templates)) (people ! i) = Inr m"
    using pick idx by simp
  then obtain messages where
    "select_messages people templates ?w = (Inr messages, ?w\<lparr>draws := draws ?w + length people\<rparr>)"
    "length messages = length people"
    "\<forall>i < length people.
        render (templates ! (rand ?w (draws ?w + i) mod length templates)) (people ! i)
          = Inr (messages ! i)"
    using select_messages_all_render [OF assms, of people ?w] by blast
  then show "\<exists>messages.
                fst (select_messages people templates ?w) = Inr messages
                \<and> length messages = length people
                \<and> (\<forall>i < length people.
                      render (templates ! pick i) (people ! i) = Inr (messages ! i))"
    using idx by (intro exI [of _ messages]) simp
next
  fix k e
  assume h: "k < length people
          \<and> (\<forall>i < k. \<exists>m.
                render (templates ! (rand w (draws w + i) mod length templates)) (people ! i)
                  = Inr m)
          \<and> render (templates ! (rand w (draws w + k) mod length templates)) (people ! k) = Inl e
          \<and> e \<noteq> Format_beyond_model"
  then have "select_loop people templates [] w = (Inl e, w\<lparr>draws := draws w + Suc k\<rparr>)"
    using select_loop_first_render_failure [OF assms, of k people w e "[]"] by blast
  then show "select_messages people templates w = (Inl e, w\<lparr>draws := draws w + Suc k\<rparr>)"
    using assms by (simp add: select_messages_def)
qed

text \<open>
  The claim as it stands promises a message for every template sequence that is not
  empty. A template that names a placeholder other than \<open>name\<close> and \<open>mention\<close> makes
  \<open>str.format\<close> raise \<open>KeyError\<close>, and \<open>select_messages\<close> passes the exception on.
\<close>

theorem unknown_placeholder_counterexample:
  "fst (select_messages [ann] [\<lparr>template_text = ''Happy birthday, {nmae}!''\<rparr>] sample_world)
     = Inl (KeyError ''nmae'')"
  by (simp add: select_messages_def choice_def rendering_defs)

theorem select_messages_one_per_celebrant_witness:
  "fst (select_messages [ann, bob] two_templates (sample_world\<lparr>rand := \<lambda>k. 1\<rparr>))
     = Inr [''Hi Ann (@ann)'', ''Hi Bob (@bob)'']
   \<and> select_messages [ann, bob, cat]
         [\<lparr>template_text = ''Hi {name}''\<rparr>, \<lparr>template_text = ''Dear {nmae}''\<rparr>]
         (sample_world\<lparr>rand := \<lambda>k. k\<rparr>)
     = (Inl (KeyError ''nmae''), sample_world\<lparr>rand := \<lambda>k. k, draws := 2\<rparr>)"
proof -
  let ?ts = "[\<lparr>template_text = ''Hi {name}''\<rparr>, \<lparr>template_text = ''Dear {nmae}''\<rparr>]"
  let ?v = "sample_world\<lparr>rand := \<lambda>k. k\<rparr>"
  have d: "draws ?v = 0"
    by (simp add: sample_world_def)
  have ok: "\<forall>i < 1. \<exists>m.
      render (?ts ! (rand ?v (draws ?v + i) mod length ?ts)) ([ann, bob, cat] ! i) = Inr m"
    by (simp add: d rendering_defs ann_def)
  have bad: "render (?ts ! (rand ?v (draws ?v + 1) mod length ?ts)) ([ann, bob, cat] ! 1)
      = Inl (KeyError ''nmae'')"
    by (simp add: d rendering_defs bob_def)
  have failing: "select_messages [ann, bob, cat] ?ts ?v
      = (Inl (KeyError ''nmae''), ?v\<lparr>draws := draws ?v + Suc 1\<rparr>)"
    using select_messages_one_per_celebrant [of ?ts "[ann, bob, cat]" ?v,
            THEN conjunct2, THEN conjunct2, THEN spec [where x = 1],
            THEN spec [where x = "KeyError ''nmae''"]] ok bad
    by simp
  have r: "render (two_templates ! 1) ann = Inr ''Hi Ann (@ann)''"
    "render (two_templates ! 1) bob = Inr ''Hi Bob (@bob)''"
    by (simp_all add: two_templates_def rendering_defs ann_def bob_def)
  have ne: "two_templates \<noteq> []"
    by (simp add: two_templates_def)
  have h: "\<forall>i < length [ann, bob]. (\<lambda>i. 1) i < length two_templates
          \<and> (\<exists>m. render (two_templates ! (\<lambda>i. 1) i) ([ann, bob] ! i) = Inr m)"
    using r by (simp add: two_templates_def less_Suc_eq)
  have "\<exists>messages.
          fst (select_messages [ann, bob] two_templates (sample_world\<lparr>rand := \<lambda>k. 1\<rparr>))
            = Inr messages
          \<and> length messages = length [ann, bob]
          \<and> (\<forall>i < length [ann, bob].
                render (two_templates ! (\<lambda>i. 1) i) ([ann, bob] ! i) = Inr (messages ! i))"
    using select_messages_one_per_celebrant [OF ne, of "[ann, bob]" sample_world,
            THEN conjunct2, THEN conjunct1, THEN spec [where x = "\<lambda>i. 1"], THEN mp, OF h]
    by simp
  then obtain messages where m:
    "fst (select_messages [ann, bob] two_templates (sample_world\<lparr>rand := \<lambda>k. 1\<rparr>))
       = Inr messages"
    "length messages = 2"
    "\<forall>i < 2. render (two_templates ! 1) ([ann, bob] ! i) = Inr (messages ! i)"
    by auto
  have "messages ! 0 = ''Hi Ann (@ann)''" "messages ! 1 = ''Hi Bob (@bob)''"
    using m(3) r by (auto simp add: less_Suc_eq numeral_2_eq_2)
  then have "messages = [''Hi Ann (@ann)'', ''Hi Bob (@bob)'']"
    using m(2) by (intro nth_equalityI) (auto simp add: less_Suc_eq numeral_2_eq_2)
  then show ?thesis using m(1) failing d by simp
qed

section \<open>Trimming and the templates file\<close>

lemma strip_decomposition:
  "\<exists>a b. s = a @ strip s @ b \<and> list_all isspace a \<and> list_all isspace b"
proof -
  let ?u = "dropWhile isspace s"
  have 1: "s = takeWhile isspace s @ ?u"
    by simp
  have "rev ?u = takeWhile isspace (rev ?u) @ dropWhile isspace (rev ?u)"
    by simp
  then have "?u = rev (dropWhile isspace (rev ?u)) @ rev (takeWhile isspace (rev ?u))"
    by (metis rev_append rev_rev_ident)
  then have 2: "?u = strip s @ rev (takeWhile isspace (rev ?u))"
    by (simp add: strip_def)
  have a: "list_all isspace (takeWhile isspace s)"
    by (simp add: list_all_iff) (meson set_takeWhileD)
  have b: "list_all isspace (rev (takeWhile isspace (rev ?u)))"
    by (simp add: list_all_iff) (meson set_takeWhileD)
  have "s = takeWhile isspace s @ strip s @ rev (takeWhile isspace (rev ?u))"
    using 1 2 by metis
  then show ?thesis using a b by blast
qed

lemma strip_ends:
  assumes "strip s \<noteq> []"
  shows "\<not> isspace (hd (strip s))" and "\<not> isspace (last (strip s))"
proof -
  let ?u = "dropWhile isspace s"
  let ?v = "dropWhile isspace (rev ?u)"
  have v: "?v \<noteq> []" using assms by (simp add: strip_def)
  then have "\<not> isspace (hd ?v)" by (rule hd_dropWhile)
  then show "\<not> isspace (last (strip s))"
    using v by (simp add: strip_def last_rev)
  have u: "?u \<noteq> []"
  proof
    assume "?u = []"
    then have "rev ?u = []" by (simp only: rev.simps)
    then have "?v = []" by (simp only: dropWhile.simps)
    with v show False by contradiction
  qed
  then have hu: "\<not> isspace (hd ?u)" by (rule hd_dropWhile)
  have "rev ?u = takeWhile isspace (rev ?u) @ ?v" by simp
  then have "?u = rev ?v @ rev (takeWhile isspace (rev ?u))"
    by (metis rev_append rev_rev_ident)
  then have "hd ?u = hd (rev ?v)"
    using v by (metis hd_append2 rev_is_Nil_conv)
  then show "\<not> isspace (hd (strip s))"
    using hu by (simp add: strip_def)
qed

lemma dropWhile_id: "xs = [] \<or> \<not> P (hd xs) \<Longrightarrow> dropWhile P xs = xs"
  by (cases xs) auto

lemma strip_idem: "strip (strip s) = strip s"
proof (cases "strip s = []")
  case True
  have "strip [] = []" by (simp add: strip_def)
  then show ?thesis using True by simp
next
  case False
  have 1: "dropWhile isspace (strip s) = strip s"
    using strip_ends(1) [OF False] by (simp add: dropWhile_id)
  have "rev (strip s) \<noteq> []" using False by simp
  moreover have "hd (rev (strip s)) = last (strip s)"
    using False by (simp add: hd_rev)
  ultimately have 2: "dropWhile isspace (rev (strip s)) = rev (strip s)"
    using strip_ends(2) [OF False] by (simp add: dropWhile_id)
  show ?thesis
    unfolding strip_def [of "strip s"] 1 2 by simp
qed

lemma template_entries_strings:
  "template_entries (map JString entries)
     = Inr (map (\<lambda>s. \<lparr>template_text = strip s\<rparr>) (filter (\<lambda>s. strip s \<noteq> []) entries))"
  by (induction entries) (simp_all add: strip_method_def)

text \<open>
  Claim C9. For a templates file that holds an array of strings,
  \<open>load_message_templates\<close> returns, in the order of the file, one template for each
  entry that is not empty after trimming, its text being the trimmed entry; the
  entries that are empty after trimming are left out and raise nothing. Every
  template returned has a text that is not empty and is already trimmed: it neither
  starts nor ends with whitespace.
\<close>

theorem templates_trimmed_nonempty:
  assumes "files w path = Json (JArray (map JString entries))"
  shows "load_message_templates w path
           = Inr (map (\<lambda>s. \<lparr>template_text = strip s\<rparr>) (filter (\<lambda>s. strip s \<noteq> []) entries))
    \<and> (\<forall>templates. load_message_templates w path = Inr templates \<longrightarrow>
          (\<forall>t \<in> set templates.
             template_text t \<noteq> [] \<and> strip (template_text t) = template_text t
             \<and> \<not> isspace (hd (template_text t)) \<and> \<not> isspace (last (template_text t))))"
proof -
  have load: "load_message_templates w path
           = Inr (map (\<lambda>s. \<lparr>template_text = strip s\<rparr>) (filter (\<lambda>s. strip s \<noteq> []) entries))"
    using assms by (simp add: load_message_templates_def read_json_def template_entries_strings)
  moreover have "template_text t \<noteq> [] \<and> strip (template_text t) = template_text t
             \<and> \<not> isspace (hd (template_text t)) \<and> \<not> isspace (last (template_text t))"
    if "t \<in> set (map (\<lambda>s. \<lparr>template_text = strip s\<rparr>) (filter (\<lambda>s. strip s \<noteq> []) entries))" for t
  proof -
    from that
    have "t \<in> (\<lambda>s. \<lparr>template_text = strip s\<rparr>) ` {s \<in> set entries. strip s \<noteq> []}"
      by simp
    then obtain s where "t = \<lparr>template_text = strip s\<rparr>" "strip s \<noteq> []"
      by blast
    then show ?thesis
      using strip_idem [of s] strip_ends [of s] by simp
  qed
  ultimately show ?thesis by simp
qed

theorem templates_trimmed_nonempty_witness:
  "load_message_templates party_world MESSAGES_PATH
     = Inr [\<lparr>template_text = ''Happy birthday, {mention}!''\<rparr>]
   \<and> load_message_templates
       (sample_world\<lparr>files := \<lambda>path. Json (JArray (map JString ['' a '', '''', ''  '', ''b'', ''a'']))\<rparr>)
       ''messages.json''
     = Inr [\<lparr>template_text = ''a''\<rparr>, \<lparr>template_text = ''b''\<rparr>, \<lparr>template_text = ''a''\<rparr>]"
proof -
  have f: "files party_world MESSAGES_PATH
             = Json (JArray (map JString [''Happy birthday, {mention}!'', ''  '']))"
    by (simp add: party_world_def BIRTHDAYS_PATH_def MESSAGES_PATH_def)
  have g: "files (sample_world\<lparr>files := \<lambda>path. Json (JArray (map JString ['' a '', '''', ''  '', ''b'', ''a'']))\<rparr>)
             ''messages.json'' = Json (JArray (map JString ['' a '', '''', ''  '', ''b'', ''a'']))"
    by simp
  show ?thesis
    using templates_trimmed_nonempty [OF f, THEN conjunct1]
          templates_trimmed_nonempty [OF g, THEN conjunct1]
    by (simp add: strip_def isspace_def)
qed

section \<open>The birthdays file\<close>

text \<open>
  What \<open>strptime\<close> takes for a date: the month and the day may have one digit, and the
  day may be written with a space in place of a leading zero. A day the month does not
  have, a month above 12, the year 0 and anything left over after the day are rejected.
\<close>

lemma strptime_examples:
  "strptime ''1990-03-04'' = Some \<lparr>year = 1990, month = 3, day = 4\<rparr>"
  "strptime ''1990-3-4'' = Some \<lparr>year = 1990, month = 3, day = 4\<rparr>"
  "strptime ''1990-03- 4'' = Some \<lparr>year = 1990, month = 3, day = 4\<rparr>"
  "strptime ''2024-02-29'' = Some \<lparr>year = 2024, month = 2, day = 29\<rparr>"
  "strptime ''2023-02-29'' = None"
  "strptime ''1990-13-04'' = None"
  "strptime ''0000-03-04'' = None"
  "strptime ''1990-03-04 '' = None"
  "strptime ''04.03.1990'' = None"
  by (simp_all add: date_parsing_defs)










section \<open>Rendering\<close>

lemma emit_emit: "emit a (emit b r) = emit (a @ b) r"
  by (cases r) (simp_all add: emit_def)

lemma format_field_scan:
  "\<forall>c \<in> set f. c \<noteq> CHR ''}'' \<and> \<not> special c \<Longrightarrow>
   format_field kw acc (f @ CHR ''}'' # r)
     = (case get_field kw (rev acc @ f) of
          Inl e \<Rightarrow> Inl e
        | Inr v \<Rightarrow> emit v (format_text kw r))"
  by (induction f arbitrary: acc) simp_all

lemma format_one_field:
  assumes "\<forall>c \<in> set f. c \<noteq> CHR ''}'' \<and> \<not> special c"
  shows "format_text kw (CHR ''{'' # f @ CHR ''}'' # r)
     = (case get_field kw f of
          Inl e \<Rightarrow> Inl e
        | Inr v \<Rightarrow> emit v (format_text kw r))"
proof (cases f)
  case Nil
  then show ?thesis by simp
next
  case (Cons c cs)
  then have "c \<noteq> CHR ''{''"
    using assms by (auto simp add: special_def)
  then show ?thesis
    using format_field_scan [OF assms, of kw "[]" r] Cons by simp
qed

lemma format_name:
  "format_text [(''name'', n), (''mention'', m)] (''{name}'' @ r)
     = emit n (format_text [(''name'', n), (''mention'', m)] r)"
  using format_one_field [of "''name''" "[(''name'', n), (''mention'', m)]" r]
  by (simp add: get_field_def special_def isdigit_def)

lemma format_mention:
  "format_text [(''name'', n), (''mention'', m)] (''{mention}'' @ r)
     = emit m (format_text [(''name'', n), (''mention'', m)] r)"
  using format_one_field [of "''mention''" "[(''name'', n), (''mention'', m)]" r]
  by (simp add: get_field_def special_def isdigit_def)

lemma format_plain_prefix:
  "placeholders_only pre \<Longrightarrow>
   format_text [(''name'', n), (''mention'', m)] (pre @ s)
     = emit (substitute n m pre) (format_text [(''name'', n), (''mention'', m)] s)"
proof (induction n m pre rule: substitute.induct)
  case (1 n m)
  show ?case by (cases "format_text [(''name'', n), (''mention'', m)] s") (simp_all add: emit_def)
next
  case (2 n m c cs)
  show ?case
  proof (cases "take 6 (c # cs) = ''{name}''")
    case True
    have d: "drop 6 (c # cs) = drop 5 cs"
      by simp
    have "take 6 (c # cs) @ drop 6 (c # cs) = c # cs"
      by (rule append_take_drop_id)
    then have split: "c # cs = ''{name}'' @ drop 5 cs"
      unfolding True d by (rule sym)
    have "placeholders_only (drop 5 cs)"
      using "2.prems" True by simp
    then have "format_text [(''name'', n), (''mention'', m)] (drop 5 cs @ s)
                 = emit (substitute n m (drop 5 cs)) (format_text [(''name'', n), (''mention'', m)] s)"
      using "2.IH"(1) True by simp
    then have A: "format_text [(''name'', n), (''mention'', m)] (''{name}'' @ drop 5 cs @ s)
                 = emit (n @ substitute n m (drop 5 cs)) (format_text [(''name'', n), (''mention'', m)] s)"
      by (simp only: format_name emit_emit)
    have B: "substitute n m (c # cs) = n @ substitute n m (drop 5 cs)"
      using True by simp
    have "(c # cs) @ s = ''{name}'' @ drop 5 cs @ s"
      by (subst split) (simp only: append_assoc)
    then show ?thesis
      unfolding B using A by (simp only:)
  next
    case False
    note not_name = False
    show ?thesis
    proof (cases "take 9 (c # cs) = ''{mention}''")
      case True
      have d: "drop 9 (c # cs) = drop 8 cs"
        by simp
      have "take 9 (c # cs) @ drop 9 (c # cs) = c # cs"
        by (rule append_take_drop_id)
      then have split: "c # cs = ''{mention}'' @ drop 8 cs"
        unfolding True d by (rule sym)
      have "placeholders_only (drop 8 cs)"
        using "2.prems" True not_name by simp
      then have "format_text [(''name'', n), (''mention'', m)] (drop 8 cs @ s)
                   = emit (substitute n m (drop 8 cs)) (format_text [(''name'', n), (''mention'', m)] s)"
        using "2.IH"(2) True not_name by simp
      then have A: "format_text [(''name'', n), (''mention'', m)] (''{mention}'' @ drop 8 cs @ s)
                   = emit (m @ substitute n m (drop 8 cs)) (format_text [(''name'', n), (''mention'', m)] s)"
        by (simp only: format_mention emit_emit)
      have B: "substitute n m (c # cs) = m @ substitute n m (drop 8 cs)"
        using True not_name by simp
      have "(c # cs) @ s = ''{mention}'' @ drop 8 cs @ s"
        by (subst split) (simp only: append_assoc)
      then show ?thesis
        unfolding B using A by (simp only:)
    next
      case False
      have "placeholders_only (c # cs)
              = (c \<noteq> CHR ''{'' \<and> c \<noteq> CHR ''}'' \<and> placeholders_only cs)"
        by (simp only: placeholders_only.simps not_name False if_False)
      then have plain: "c \<noteq> CHR ''{''" "c \<noteq> CHR ''}''" "placeholders_only cs"
        using "2.prems" by simp_all
      have B: "substitute n m (c # cs) = c # substitute n m cs"
        by (simp only: substitute.simps not_name False if_False)
      have "format_text [(''name'', n), (''mention'', m)] (cs @ s)
              = emit (substitute n m cs) (format_text [(''name'', n), (''mention'', m)] s)"
        using "2.IH"(3) [OF not_name False plain(3)] .
      then have "format_text [(''name'', n), (''mention'', m)] ((c # cs) @ s)
                   = emit (c # substitute n m cs) (format_text [(''name'', n), (''mention'', m)] s)"
        using plain(1,2) by (simp add: emit_emit)
      then show ?thesis
        unfolding B .
    qed
  qed
qed

lemma format_placeholders_only:
  "placeholders_only s \<Longrightarrow>
   format_text [(''name'', n), (''mention'', m)] s = Inr (substitute n m s)"
  using format_plain_prefix [of s n m "[]"] by (simp add: emit_def)

lemma format_unknown_field:
  assumes "placeholders_only pre"
    and "\<forall>c \<in> set f. c \<noteq> CHR ''}'' \<and> \<not> special c"
    and "f \<noteq> []" and "\<not> isdigit (hd f)" and "f \<noteq> ''name''" and "f \<noteq> ''mention''"
  shows "format_text [(''name'', n), (''mention'', m)] (pre @ CHR ''{'' # f @ CHR ''}'' # r)
           = Inl (KeyError f)"
proof -
  have "get_integer 0 f = Inr None"
    using assms(3,4) by (cases f) simp_all
  then have "get_field [(''name'', n), (''mention'', m)] f = Inl (KeyError f)"
    using assms(3,5,6) by (simp add: get_field_def)
  then have "format_text [(''name'', n), (''mention'', m)] (CHR ''{'' # f @ CHR ''}'' # r)
               = Inl (KeyError f)"
    using format_one_field [OF assms(2), of "[(''name'', n), (''mention'', m)]" r] by simp
  then show ?thesis
    using format_plain_prefix [OF assms(1)] by (simp add: emit_def)
qed

lemma format_escaped:
  assumes "placeholders_only pre"
  shows "format_text [(''name'', n), (''mention'', m)] (pre @ ''{{'' @ r)
           = emit (substitute n m pre @ ''{'') (format_text [(''name'', n), (''mention'', m)] r)"
    and "format_text [(''name'', n), (''mention'', m)] (pre @ ''}}'' @ r)
           = emit (substitute n m pre @ ''}'') (format_text [(''name'', n), (''mention'', m)] r)"
  using format_plain_prefix [OF assms] by (simp_all add: emit_emit)

text \<open>Field names that start with digits: an index within range, an index beyond it,
  and names that are no numbers.\<close>

lemma numeric_fields:
  "render \<lparr>template_text = ''{9223372036854775807}''\<rparr> ann = Inl IndexError"
  "render \<lparr>template_text = ''{9223372036854775808}''\<rparr> ann = Inl ValueError"
  "render \<lparr>template_text = ''{99999999999999999999a}''\<rparr> ann = Inl ValueError"
  "render \<lparr>template_text = ''{9a}''\<rparr> ann = Inl (KeyError ''9a'')"
  "render \<lparr>template_text = ''{00000000000000000000000000000000000000001}''\<rparr> ann = Inl IndexError"
  "render \<lparr>template_text = ''{12 }''\<rparr> ann = Inl (KeyError ''12 '')"
  "render \<lparr>template_text = ''{}''\<rparr> ann = Inl IndexError"
  by (simp_all add: rendering_defs digit_value_def PY_SSIZE_T_MAX_def)

lemma loaded_person_trimmed:
  assumes "load_entry entry = Inr p"
  shows "strip (name p) = name p" and "strip (nickname p) = nickname p"
proof -
  from assms obtain n k b where "p = \<lparr>name = strip n, nickname = strip k, birthday = b\<rparr>"
    by (auto simp add: load_entry_def entry_person_def strip_method_def
        split: sum.splits error.splits json.splits)
  then show "strip (name p) = name p" and "strip (nickname p) = nickname p"
    by (simp_all add: strip_idem)
qed

text \<open>
  Claim C8, as amended. \<open>render\<close> is a function of the template and the person alone,
  so a fixed template and person always give the same outcome. For a template whose
  braces all belong to the placeholders \<open>{name}\<close> and \<open>{mention}\<close>, the outcome is the
  template text with \<open>{name}\<close> replaced by the name of the person and \<open>{mention}\<close> by the
  mention. The mention is made from the nickname trimmed of surrounding whitespace:
  it is the trimmed nickname when that starts with \<open>@\<close>, and the trimmed nickname with
  \<open>@\<close> put in front otherwise, so it always starts with \<open>@\<close> and never gains a second
  one. For a nickname that is already trimmed, as every loaded nickname is, this
  is the nickname unchanged or the nickname with \<open>@\<close> in front. The template
  \<open>Hi {name} ({mention})\<close> with name \<open>Ann\<close> and nickname \<open>ann\<close> renders to \<open>Hi Ann (@ann)\<close>.
  Other braces follow \<open>str.format\<close>: after a stretch of text of the kind above, \<open>{{\<close>
  and \<open>}}\<close> stand for one brace each, and a field with a plain name that does not
  start with a digit and is neither \<open>name\<close> nor \<open>mention\<close> makes \<open>render\<close> fail with
  \<open>KeyError\<close> for that name.
\<close>

theorem render_substitutes:
  "(placeholders_only (template_text t)
      \<longrightarrow> render t p = Inr (substitute (name p) (mention p) (template_text t)))
   \<and> mention p = (if startswith (strip (nickname p)) ''@'' then strip (nickname p)
                  else ''@'' @ strip (nickname p))
   \<and> (strip (nickname p) = nickname p
      \<longrightarrow> mention p = (if startswith (nickname p) ''@'' then nickname p else ''@'' @ nickname p))
   \<and> (load_entry entry = Inr p \<longrightarrow> strip (nickname p) = nickname p)
   \<and> startswith (mention p) ''@''
   \<and> render \<lparr>template_text = ''Hi {name} ({mention})''\<rparr>
         \<lparr>name = ''Ann'', nickname = ''ann'', birthday = b\<rparr> = Inr ''Hi Ann (@ann)''
   \<and> (placeholders_only pre
      \<longrightarrow> render \<lparr>template_text = pre @ ''{{'' @ r\<rparr> p
            = emit (substitute (name p) (mention p) pre @ ''{'') (render \<lparr>template_text = r\<rparr> p)
        \<and> render \<lparr>template_text = pre @ ''}}'' @ r\<rparr> p
            = emit (substitute (name p) (mention p) pre @ ''}'') (render \<lparr>template_text = r\<rparr> p))
   \<and> (placeholders_only pre \<and> (\<forall>c \<in> set f. c \<noteq> CHR ''}'' \<and> \<not> special c)
        \<and> f \<noteq> [] \<and> \<not> isdigit (hd f) \<and> f \<noteq> ''name'' \<and> f \<noteq> ''mention''
      \<longrightarrow> render \<lparr>template_text = pre @ ''{'' @ f @ ''}'' @ r\<rparr> p = Inl (KeyError f))"
proof -
  have "placeholders_only (template_text t)
      \<longrightarrow> render t p = Inr (substitute (name p) (mention p) (template_text t))"
    by (simp add: render_def format_placeholders_only)
  moreover have m: "mention p = (if startswith (strip (nickname p)) ''@'' then strip (nickname p)
                  else ''@'' @ strip (nickname p))"
    by (simp add: mention_def Let_def)
  moreover have "strip (nickname p) = nickname p
      \<longrightarrow> mention p = (if startswith (nickname p) ''@'' then nickname p else ''@'' @ nickname p)"
    using m by simp
  moreover have "load_entry entry = Inr p \<longrightarrow> strip (nickname p) = nickname p"
    using loaded_person_trimmed(2) by blast
  moreover have "startswith (mention p) ''@''"
    by (simp add: mention_def Let_def startswith_def)
  moreover have "render \<lparr>template_text = ''Hi {name} ({mention})''\<rparr>
         \<lparr>name = ''Ann'', nickname = ''ann'', birthday = b\<rparr> = Inr ''Hi Ann (@ann)''"
    by (simp add: rendering_defs)
  moreover have "placeholders_only pre
      \<longrightarrow> render \<lparr>template_text = pre @ ''{{'' @ r\<rparr> p
            = emit (substitute (name p) (mention p) pre @ ''{'') (render \<lparr>template_text = r\<rparr> p)
        \<and> render \<lparr>template_text = pre @ ''}}'' @ r\<rparr> p
            = emit (substitute (name p) (mention p) pre @ ''}'') (render \<lparr>template_text = r\<rparr> p)"
    using format_escaped [of pre "name p" "mention p" r] by (simp add: render_def)
  moreover have "placeholders_only pre \<and> (\<forall>c \<in> set f. c \<noteq> CHR ''}'' \<and> \<not> special c)
        \<and> f \<noteq> [] \<and> \<not> isdigit (hd f) \<and> f \<noteq> ''name'' \<and> f \<noteq> ''mention''
      \<longrightarrow> render \<lparr>template_text = pre @ ''{'' @ f @ ''}'' @ r\<rparr> p = Inl (KeyError f)"
    using format_unknown_field [of pre f "name p" "mention p" r] by (simp add: render_def)
  ultimately show ?thesis by blast
qed

theorem render_substitutes_witness:
  "render \<lparr>template_text = ''Dear {name}, {mention} {mention}''\<rparr> bob = Inr ''Dear Bob, @bob @bob''
   \<and> mention bob = ''@bob''
   \<and> mention ann = ''@ann''
   \<and> render \<lparr>template_text = ''{name} {{x}}''\<rparr> bob = Inr ''Bob {x}''
   \<and> render \<lparr>template_text = ''Dear {name}, {age}!''\<rparr> bob = Inl (KeyError ''age'')"
proof -
  have p: "placeholders_only (template_text \<lparr>template_text = ''Dear {name}, {mention} {mention}''\<rparr>)"
    by simp
  have n: "strip (nickname bob) = nickname bob" "strip (nickname ann) = nickname ann"
    by (simp_all add: bob_def ann_def strip_def isspace_def)
  have mb: "mention bob = ''@bob''"
    using render_substitutes [of _ bob, THEN conjunct2, THEN conjunct2, THEN conjunct1] n(1)
    by (simp add: bob_def startswith_def)
  have ma: "mention ann = ''@ann''"
    using render_substitutes [of _ ann, THEN conjunct2, THEN conjunct2, THEN conjunct1] n(2)
    by (simp add: ann_def startswith_def)
  have 1: "render \<lparr>template_text = ''Dear {name}, {mention} {mention}''\<rparr> bob
      = Inr (substitute (name bob) (mention bob) ''Dear {name}, {mention} {mention}'')"
    using render_substitutes [of "\<lparr>template_text = ''Dear {name}, {mention} {mention}''\<rparr>" bob,
            THEN conjunct1] p
    by simp
  have x: "render \<lparr>template_text = ''x}}''\<rparr> bob = Inr ''x}''"
    using render_substitutes [where pre = "''x''" and r = "[]" and p = bob]
    by (simp add: render_def emit_def)
  have 2: "render \<lparr>template_text = ''{name} '' @ ''{{'' @ ''x}}''\<rparr> bob
             = emit (substitute (name bob) (mention bob) ''{name} '' @ ''{'')
                 (render \<lparr>template_text = ''x}}''\<rparr> bob)"
    using render_substitutes [where pre = "''{name} ''" and r = "''x}}''" and p = bob]
    by simp
  have 3: "render \<lparr>template_text = ''Dear {name}, '' @ ''{'' @ ''age'' @ ''}'' @ ''!''\<rparr> bob
             = Inl (KeyError ''age'')"
    using render_substitutes [where pre = "''Dear {name}, ''" and f = "''age''" and r = "''!''"
            and p = bob]
    by (simp add: special_def isdigit_def)
  show ?thesis
    using 1 2 3 x mb ma by (simp add: bob_def emit_def)
qed

text \<open>
  The claim as it stands speaks of every template and every person. \<open>str.format\<close>
  reads \<open>{{\<close> and \<open>}}\<close> as escaped braces, so in \<open>{{name}}\<close> nothing is replaced; it
  raises \<open>KeyError\<close> on a placeholder it does not know; and the mention of a nickname
  with surrounding whitespace is made from the trimmed nickname, which is neither
  the nickname unchanged nor the nickname with \<open>@\<close> in front.
\<close>

theorem escaped_braces_counterexample:
  "render \<lparr>template_text = ''{{name}}''\<rparr> ann = Inr ''{name}''
   \<and> substitute (name ann) (mention ann) ''{{name}}'' = ''{Ann}''
   \<and> render \<lparr>template_text = ''Hi {nmae}''\<rparr> ann = Inl (KeyError ''nmae'')
   \<and> mention \<lparr>name = ''Bob'', nickname = ''@bob '', birthday = birthday bob\<rparr> = ''@bob''
   \<and> mention \<lparr>name = ''Bob'', nickname = '' bob'', birthday = birthday bob\<rparr> = ''@bob''"
  by (simp add: rendering_defs ann_def)

end
